theory Spec2Isabelle
  imports Main
begin

section \<open>Strings and headers\<close>

text \<open>
  Header values and paths are JavaScript strings, modelled as \<open>string\<close>. A header lookup
  \<open>req.headers[name]\<close> yields \<open>undefined\<close> when the header is absent, which is \<open>None\<close>
  here. A condition \<open>if (h)\<close> on such a lookup is JavaScript truthiness: the header is
  there and its value is not the empty string.
\<close>

type_synonym headers = "string \<rightharpoonup> string"

definition truthy_hdr :: "string option \<Rightarrow> bool" where
  "truthy_hdr h = (case h of None \<Rightarrow> False | Some s \<Rightarrow> s \<noteq> [])"

text \<open>The string of a header that is known to be truthy (read only under that guard).\<close>

definition hdr_str :: "string option \<Rightarrow> string" where
  "hdr_str h = (case h of None \<Rightarrow> [] | Some s \<Rightarrow> s)"

text \<open>\<open>String.prototype.toLowerCase\<close>, on the ASCII letters.\<close>

definition lower_char :: "char \<Rightarrow> char" where
  "lower_char c =
     (case map_of (zip ''ABCDEFGHIJKLMNOPQRSTUVWXYZ'' ''abcdefghijklmnopqrstuvwxyz'') c of
        None \<Rightarrow> c
      | Some d \<Rightarrow> d)"

definition toLowerCase :: "string \<Rightarrow> string" where
  "toLowerCase s = map lower_char s"

text \<open>\<open>s.startsWith(p)\<close> and \<open>s.includes(sub)\<close> (the latter under the name \<open>str_includes\<close>).\<close>

definition startsWith :: "string \<Rightarrow> string \<Rightarrow> bool" where
  "startsWith s p = (take (length p) s = p)"

fun str_includes :: "string \<Rightarrow> string \<Rightarrow> bool" where
  "str_includes [] sub = (sub = [])"
| "str_includes (c # cs) sub = (startsWith (c # cs) sub \<or> str_includes cs sub)"

section \<open>Format detection (formatDetector.ts)\<close>

datatype format_type = Legacy | V1 | V2 | Current

record ClientFormat =
  version :: string
  ftype :: format_type
  wrapInData :: bool
  includeSuccess :: bool
  fieldMappings :: "(string \<times> string) list option"

definition getLegacyFormat :: ClientFormat where
  "getLegacyFormat =
     \<lparr>version = ''legacy'', ftype = Legacy, wrapInData = True, includeSuccess = True,
      fieldMappings = Some []\<rparr>"

definition v2Format :: ClientFormat where
  "v2Format =
     \<lparr>version = ''v2'', ftype = V2, wrapInData = True, includeSuccess = True,
      fieldMappings = None\<rparr>"

definition currentFormat :: ClientFormat where
  "currentFormat =
     \<lparr>version = ''current'', ftype = Current, wrapInData = False, includeSuccess = False,
      fieldMappings = None\<rparr>"

definition getFormatByVersion :: "string \<Rightarrow> ClientFormat" where
  "getFormatByVersion v =
     (if v = ''v1'' \<or> v = ''1'' then getLegacyFormat
      else if v = ''v2'' \<or> v = ''2'' then v2Format
      else currentFormat)"

text \<open>The client substrings that the user-agent branch looks for.\<close>

definition legacy_agent :: "string \<Rightarrow> bool" where
  "legacy_agent ua =
     (str_includes ua ''48hauling'' \<or> str_includes ua ''devapi'' \<or> str_includes ua ''devdashboard'')"

text \<open>
  The cascade of \<open>formatDetector\<close>. The user-agent branch is entered as soon as the header
  is truthy; inside it the format is only changed when one of the client substrings is
  found, and the \<open>else if\<close> on the Authorization header is then not evaluated.
\<close>

definition detectFormat :: "headers \<Rightarrow> ClientFormat" where
  "detectFormat hs =
     (if truthy_hdr (hs ''x-api-version'') then getFormatByVersion (hdr_str (hs ''x-api-version''))
      else if truthy_hdr (hs ''app-version'') then getLegacyFormat
      else if truthy_hdr (hs ''user-agent'') then
        (let ua = toLowerCase (hdr_str (hs ''user-agent'')) in
         if str_includes ua ''48hauling'' \<or> str_includes ua ''devapi'' then getLegacyFormat
         else if str_includes ua ''devdashboard'' then getLegacyFormat
         else currentFormat)
      else if truthy_hdr (hs ''authorization'') then getLegacyFormat
      else currentFormat)"

section \<open>JSON bodies\<close>

text \<open>
  The values a handler passes to \<open>res.json\<close>. An object is its list of own properties in
  insertion order; a property may hold \<open>undefined\<close> (the transformer itself builds
  \<open>message: data.message\<close>). Numbers are modelled as integers: the transformer only ever
  tests a number for truthiness.
\<close>

datatype jsval =
    JUndefined
  | JNull
  | JBool bool
  | JNum int
  | JStr string
  | JArr "jsval list"
  | JObj "(string \<times> jsval) list"

datatype js_error = TypeError | RedisError

fun truthy :: "jsval \<Rightarrow> bool" where
  "truthy JUndefined = False"
| "truthy JNull = False"
| "truthy (JBool b) = b"
| "truthy (JNum n) = (n \<noteq> 0)"
| "truthy (JStr s) = (s \<noteq> [])"
| "truthy (JArr xs) = True"
| "truthy (JObj kvs) = True"

text \<open>Reading a property of \<open>null\<close> or \<open>undefined\<close> throws a TypeError.\<close>

fun nullish :: "jsval \<Rightarrow> bool" where
  "nullish JUndefined = True"
| "nullish JNull = True"
| "nullish v = False"

text \<open>
  \<open>data.k\<close> on a value that is not nullish, for the property names the transformer reads
  (\<open>error\<close>, \<open>success\<close>, \<open>data\<close>, \<open>user\<close>, \<open>token\<close>, \<open>message\<close>): the own property of an
  object, and \<open>undefined\<close> on an object without it, on an array and on a primitive. Every
  call below is guarded by \<open>nullish\<close> or by the truthiness of the value read from.
\<close>

fun field :: "jsval \<Rightarrow> string \<Rightarrow> jsval" where
  "field (JObj kvs) k = (case map_of kvs k of None \<Rightarrow> JUndefined | Some v \<Rightarrow> v)"
| "field v k = JUndefined"

text \<open>Whether an object has an own property of that name, whatever its value.\<close>

fun has_field :: "jsval \<Rightarrow> string \<Rightarrow> bool" where
  "has_field (JObj kvs) k = (k \<in> set (map fst kvs))"
| "has_field v k = False"

fun keys :: "jsval \<Rightarrow> string list" where
  "keys (JObj kvs) = map fst kvs"
| "keys v = []"

section \<open>Response transformation (responseTransformer.ts)\<close>

definition ensureFormat :: "jsval \<Rightarrow> ClientFormat \<Rightarrow> js_error + jsval" where
  "ensureFormat data format =
     (if nullish data then Inl TypeError
      else if truthy (field data ''error'') \<and> \<not> truthy (field data ''success'') then
        Inr (JObj [(''success'', JBool False),
                   (''error'', field data ''error''),
                   (''message'', field data ''message'')])
      else Inr data)"

definition wrapped :: "jsval \<Rightarrow> jsval" where
  "wrapped d = JObj [(''success'', JBool True), (''data'', d)]"

definition transformToLegacy :: "jsval \<Rightarrow> ClientFormat \<Rightarrow> string \<Rightarrow> js_error + jsval" where
  "transformToLegacy data format path =
     (if nullish data then Inl TypeError
      else if field data ''success'' \<noteq> JUndefined \<and> field data ''data'' \<noteq> JUndefined then
        Inr data
      else if (str_includes path ''/auth/login'' \<or> str_includes path ''/auth/register'')
              \<and> truthy (field data ''user'') \<and> truthy (field data ''token'') then
        Inr (JObj [(''success'', JBool True),
                   (''data'', JObj [(''user'', field data ''user''),
                                    (''token'', field data ''token'')])])
      else if (str_includes path ''/auth/login'' \<or> str_includes path ''/auth/register'')
              \<and> truthy (field data ''data'')
              \<and> truthy (field (field data ''data'') ''user'')
              \<and> truthy (field (field data ''data'') ''token'') then
        Inr (JObj [(''success'', JBool True), (''data'', field data ''data'')])
      else if str_includes path ''/auth/me'' \<and> truthy (field data ''user'') then Inr data
      else if wrapInData format then Inr (wrapped data)
      else Inr data)"

text \<open>
  In \<open>transformToV2\<close> the body is only read when \<open>format.wrapInData\<close> holds
  (\<open>&&\<close> short-circuits), so only then can the read throw.
\<close>

definition transformToV2 :: "jsval \<Rightarrow> ClientFormat \<Rightarrow> js_error + jsval" where
  "transformToV2 data format =
     (if wrapInData format then
        (if nullish data then Inl TypeError
         else if \<not> truthy (field data ''data'') then Inr (wrapped data)
         else Inr data)
      else Inr data)"

definition transformResponse :: "jsval \<Rightarrow> ClientFormat \<Rightarrow> string \<Rightarrow> js_error + jsval" where
  "transformResponse data format path =
     (if nullish data then Inl TypeError
      else if truthy (field data ''error'') then ensureFormat data format
      else (case ftype format of
              Legacy \<Rightarrow> transformToLegacy data format path
            | V1 \<Rightarrow> transformToLegacy data format path
            | V2 \<Rightarrow> transformToV2 data format
            | Current \<Rightarrow> Inr data))"

text \<open>Applying the transformation to its own output; a throw of the first pass stays.\<close>

definition transformTwice :: "jsval \<Rightarrow> ClientFormat \<Rightarrow> string \<Rightarrow> js_error + jsval" where
  "transformTwice data format path =
     (case transformResponse data format path of
        Inl e \<Rightarrow> Inl e
      | Inr d \<Rightarrow> transformResponse d format path)"

section \<open>Requests and middleware outcomes\<close>

record TokenPayload =
  userId :: string
  email :: string
  role :: string

text \<open>
  The request as the middlewares see it: its headers, its path, the client address that
  keys the rate limiters, and the two optional properties the middlewares attach
  (\<open>req.clientFormat\<close>, \<open>req.user\<close>).
\<close>

record request =
  headers :: headers
  path :: string
  ip :: string
  clientFormat :: "ClientFormat option"
  user :: "TokenPayload option"

text \<open>A middleware either calls \<open>next()\<close> or answers with \<open>res.status(code).json(body)\<close>.\<close>

datatype outcome = Next | Respond nat jsval

definition formatDetector :: "request \<Rightarrow> request \<times> outcome" where
  "formatDetector req = (req\<lparr>clientFormat := Some (detectFormat (headers req))\<rparr>, Next)"

text \<open>
  The \<open>res.json\<close> that \<open>responseTransformer\<close> installs: the body that reaches the original
  \<open>res.json\<close>, or the error thrown on the way.
\<close>

definition res_json :: "request \<Rightarrow> jsval \<Rightarrow> js_error + jsval" where
  "res_json req data =
     (case clientFormat req of
        None \<Rightarrow> Inr data
      | Some format \<Rightarrow> transformResponse data format (path req))"

section \<open>Token revocation (jwt.ts)\<close>

text \<open>
  Modelled from the spec: the Redis client behind \<open>redisClient\<close> is a library that is
  not part of the sources. The store is the spec's revocation store, with
  \<open>SET key value WITH TTL\<close> and \<open>GET key\<close>, an entry being gone once its TTL (in seconds)
  has elapsed. Each entry keeps the value, the TTL it was stored with and the
  time of the store in milliseconds. A command on a client that is not connected throws.
  The clock \<open>Date.now()\<close> is the number of milliseconds since the epoch, a natural number.
\<close>

record redis_entry =
  rvalue :: string
  ttl :: int
  stored_at :: nat

record redis =
  up :: bool
  entries :: "string \<rightharpoonup> redis_entry"

definition live :: "redis_entry \<Rightarrow> nat \<Rightarrow> bool" where
  "live e now_ms = (int now_ms < int (stored_at e) + ttl e * 1000)"

definition redis_get :: "redis \<Rightarrow> nat \<Rightarrow> string \<Rightarrow> js_error + string option" where
  "redis_get r now_ms key =
     (if \<not> up r then Inl RedisError
      else (case entries r key of
              None \<Rightarrow> Inr None
            | Some e \<Rightarrow> if live e now_ms then Inr (Some (rvalue e)) else Inr None))"

definition redis_setEx :: "redis \<Rightarrow> nat \<Rightarrow> string \<Rightarrow> int \<Rightarrow> string \<Rightarrow> js_error + redis" where
  "redis_setEx r now_ms key seconds v =
     (if \<not> up r then Inl RedisError
      else Inr (r\<lparr>entries := (entries r)(key \<mapsto> \<lparr>rvalue = v, ttl = seconds, stored_at = now_ms\<rparr>)\<rparr>))"

text \<open>
  What \<open>jwt.decode\<close> returns, as far as \<open>blacklistToken\<close> reads it: \<open>null\<close> (\<open>None\<close>) or a
  payload whose \<open>exp\<close> is absent or a number of seconds. The decoder is a parameter
  \<open>decode\<close>; so is the verifier \<open>verify\<close> of \<open>verifyToken\<close>, which yields \<open>null\<close> where
  \<open>jwt.verify\<close> throws.
\<close>

record decoded =
  exp :: "int option"

definition blacklistToken ::
  "(string \<Rightarrow> decoded option) \<Rightarrow> redis \<Rightarrow> nat \<Rightarrow> string \<Rightarrow> js_error + redis" where
  "blacklistToken decode r now_ms token =
     (case decode token of
        None \<Rightarrow> Inr r
      | Some d \<Rightarrow>
          (case exp d of
             None \<Rightarrow> Inr r
           | Some e \<Rightarrow>
               if e = 0 then Inr r
               else (let t = e - int (now_ms div 1000) in
                     if t > 0 then redis_setEx r now_ms (''blacklist:'' @ token) t ''true''
                     else Inr r)))"

definition isTokenBlacklisted :: "redis \<Rightarrow> nat \<Rightarrow> string \<Rightarrow> js_error + bool" where
  "isTokenBlacklisted r now_ms token =
     (case redis_get r now_ms (''blacklist:'' @ token) of
        Inl e \<Rightarrow> Inl e
      | Inr result \<Rightarrow> Inr (result \<noteq> None))"

section \<open>Authentication middleware (auth.ts)\<close>

definition err_body :: "string \<Rightarrow> jsval" where
  "err_body msg = JObj [(''error'', JStr msg)]"

text \<open>
  \<open>authMiddleware\<close> returns the request, with \<open>req.user\<close> set only on the path that reaches
  \<open>next()\<close>, and what it did with the response. The \<open>catch\<close> turns a throw of the store
  lookup into the 401 ``Authentication failed''.
\<close>

definition authMiddleware ::
  "(string \<Rightarrow> TokenPayload option) \<Rightarrow> redis \<Rightarrow> nat \<Rightarrow> request \<Rightarrow> request \<times> outcome" where
  "authMiddleware verify r now_ms req =
     (let authHeader = headers req ''authorization'' in
      if \<not> truthy_hdr authHeader \<or> \<not> startsWith (hdr_str authHeader) ''Bearer '' then
        (req, Respond 401 (err_body ''No token provided''))
      else
        (let token = drop 7 (hdr_str authHeader) in
         case isTokenBlacklisted r now_ms token of
           Inl e \<Rightarrow> (req, Respond 401 (err_body ''Authentication failed''))
         | Inr blacklisted \<Rightarrow>
             if blacklisted then (req, Respond 401 (err_body ''Token has been revoked''))
             else (case verify token of
                     None \<Rightarrow> (req, Respond 401 (err_body ''Invalid or expired token''))
                   | Some decoded \<Rightarrow> (req\<lparr>user := Some decoded\<rparr>, Next))))"

definition adminMiddleware :: "request \<Rightarrow> outcome" where
  "adminMiddleware req =
     (case user req of
        None \<Rightarrow> Respond 401 (err_body ''Not authenticated'')
      | Some u \<Rightarrow>
          if role u \<noteq> ''ADMIN'' then Respond 403 (err_body ''Admin access required'')
          else Next)"

section \<open>Tiered rate limiting (application set-up)\<close>

record limiter_config =
  windowMs :: nat
  maxReq :: nat
  message :: string

definition authLimiter :: limiter_config where
  "authLimiter =
     \<lparr>windowMs = 15 * 60 * 1000, maxReq = 100,
      message = ''Too many login attempts, please try again later.''\<rparr>"

definition realtimeLimiter :: limiter_config where
  "realtimeLimiter =
     \<lparr>windowMs = 15 * 60 * 1000, maxReq = 15000,
      message = ''Rate limit exceeded. Please reduce polling frequency.''\<rparr>"

definition generalLimiter :: limiter_config where
  "generalLimiter =
     \<lparr>windowMs = 15 * 60 * 1000, maxReq = 3000,
      message = ''Too many requests, please try again later.''\<rparr>"

text \<open>
  Modelled from the spec: the middleware that the library call \<open>rateLimit(config)\<close>
  builds is not part of the sources. Following the spec's Rate Limit Window, a limiter
  keeps for each client address a counter and a reset time; the entry is created on the
  first request, starts again when the window has expired, and a request whose count
  exceeds the maximum is answered by the configured handler instead of \<open>next()\<close>.
\<close>

type_synonym rl_store = "string \<rightharpoonup> (nat \<times> nat)"

definition hits_after :: "limiter_config \<Rightarrow> rl_store \<Rightarrow> string \<Rightarrow> nat \<Rightarrow> nat \<times> nat" where
  "hits_after cfg st key now_ms =
     (case st key of
        None \<Rightarrow> (1, now_ms + windowMs cfg)
      | Some (n, reset) \<Rightarrow>
          if reset \<le> now_ms then (1, now_ms + windowMs cfg) else (n + 1, reset))"

definition rejection :: "limiter_config \<Rightarrow> outcome" where
  "rejection cfg =
     Respond 429 (JObj [(''success'', JBool False), (''error'', JStr (message cfg))])"

definition rateLimit :: "limiter_config \<Rightarrow> rl_store \<Rightarrow> string \<Rightarrow> nat \<Rightarrow> rl_store \<times> outcome" where
  "rateLimit cfg st key now_ms =
     (let entry = hits_after cfg st key now_ms in
      (st(key \<mapsto> entry), if fst entry > maxReq cfg then rejection cfg else Next))"

text \<open>The three limiter instances, each with a store of its own.\<close>

datatype limiter_id = AuthL | RealtimeL | GeneralL

record limiters =
  authStore :: rl_store
  realtimeStore :: rl_store
  generalStore :: rl_store

definition config_of :: "limiter_id \<Rightarrow> limiter_config" where
  "config_of l = (case l of AuthL \<Rightarrow> authLimiter | RealtimeL \<Rightarrow> realtimeLimiter
                  | GeneralL \<Rightarrow> generalLimiter)"

definition store_of :: "limiters \<Rightarrow> limiter_id \<Rightarrow> rl_store" where
  "store_of ls l = (case l of AuthL \<Rightarrow> authStore ls | RealtimeL \<Rightarrow> realtimeStore ls
                    | GeneralL \<Rightarrow> generalStore ls)"

definition set_store :: "limiters \<Rightarrow> limiter_id \<Rightarrow> rl_store \<Rightarrow> limiters" where
  "set_store ls l st = (case l of AuthL \<Rightarrow> ls\<lparr>authStore := st\<rparr>
                        | RealtimeL \<Rightarrow> ls\<lparr>realtimeStore := st\<rparr>
                        | GeneralL \<Rightarrow> ls\<lparr>generalStore := st\<rparr>)"

text \<open>
  The \<open>app.use(prefix, ...)\<close> lines in their order: the prefix, the limiter, and whether a
  router is mounted behind the limiter on that line. The two realtime lines mount the
  limiter alone, so a request that passes it goes on to the lines below.
\<close>

definition mounts :: "(string \<times> limiter_id \<times> bool) list" where
  "mounts =
     [(''/api/auth'', AuthL, True),
      (''/api/hauling/heartbeat'', RealtimeL, False),
      (''/api/hauling/location'', RealtimeL, False),
      (''/api/hauling'', GeneralL, True),
      (''/api/database'', GeneralL, True),
      (''/api/databases'', GeneralL, True),
      (''/api/users'', GeneralL, True),
      (''/api/metrics'', GeneralL, True)]"

text \<open>
  Modelled from the spec: quota classes are ``selected by route prefix''. The router
  that does the matching is not part of the sources; a mount point matches a path when the
  path, compared without regard to case, is the prefix or continues it with a slash.
\<close>

definition mount_matches :: "string \<Rightarrow> string \<Rightarrow> bool" where
  "mount_matches prefix p =
     (let q = toLowerCase p in
      startsWith q prefix \<and> (length q = length prefix \<or> q ! length prefix = CHR ''/''))"

text \<open>
  What the limiter lines do with one request: \<open>Limited\<close> when a limiter answers 429,
  \<open>Reached prefix\<close> when the request gets to the router mounted at that prefix, and
  \<open>Unrouted\<close> when no line with a router matches (the health check and the 404 handler,
  which have no limiter).
\<close>

datatype routed = Limited outcome | Reached string | Unrouted

fun dispatch :: "(string \<times> limiter_id \<times> bool) list \<Rightarrow> limiters \<Rightarrow> string \<Rightarrow> string \<Rightarrow> nat
                  \<Rightarrow> limiters \<times> routed" where
  "dispatch [] ls addr p now_ms = (ls, Unrouted)"
| "dispatch ((prefix, l, has_router) # ms) ls addr p now_ms =
     (if mount_matches prefix p then
        (case rateLimit (config_of l) (store_of ls l) addr now_ms of
           (st, Next) \<Rightarrow>
             if has_router then (set_store ls l st, Reached prefix)
             else dispatch ms (set_store ls l st) addr p now_ms
         | (st, Respond code body) \<Rightarrow> (set_store ls l st, Limited (Respond code body)))
      else dispatch ms ls addr p now_ms)"

definition handle :: "limiters \<Rightarrow> string \<times> string \<times> nat \<Rightarrow> limiters \<times> routed" where
  "handle ls rq = (case rq of (addr, p, now_ms) \<Rightarrow> dispatch mounts ls addr p now_ms)"

text \<open>A sequence of requests (address, path, time), with the answer to each.\<close>

fun serve :: "limiters \<Rightarrow> (string \<times> string \<times> nat) list \<Rightarrow> limiters \<times> routed list" where
  "serve ls [] = (ls, [])"
| "serve ls (rq # rqs) =
     (case handle ls rq of
        (ls', out) \<Rightarrow> (case serve ls' rqs of (ls'', outs) \<Rightarrow> (ls'', out # outs)))"

definition no_traffic :: limiters where
  "no_traffic = \<lparr>authStore = Map.empty, realtimeStore = Map.empty, generalStore = Map.empty\<rparr>"

section \<open>Shapes and inputs used in the statements\<close>

text \<open>The normalized error body \<open>{ success: false, error, message }\<close> of a body.\<close>

definition error_shape :: "jsval \<Rightarrow> jsval" where
  "error_shape data =
     JObj [(''success'', JBool False),
           (''error'', field data ''error''),
           (''message'', field data ''message'')]"

text \<open>Heartbeat requests from one address at the given times.\<close>

definition heartbeats :: "string \<Rightarrow> nat list \<Rightarrow> (string \<times> string \<times> nat) list" where
  "heartbeats a ts = map (\<lambda>t. (a, ''/api/hauling/heartbeat'', t)) ts"

text \<open>A request with the given headers and nothing attached yet.\<close>

definition incoming :: "headers \<Rightarrow> string \<Rightarrow> request" where
  "incoming hs p = \<lparr>headers = hs, path = p, ip = ''203.0.113.7'', clientFormat = None, user = None\<rparr>"

section \<open>Format detection\<close>

text \<open>
  C1. A request without version header and without application-version header, with a
  user-agent that names no legacy client and with an Authorization header, is said to be
  classified as legacy. The detector enters the user-agent branch, finds no client
  substring, and leaves the default: such a request is classified as current.
\<close>

theorem formatDetector_unknown_agent_with_bearer:
  "headers (incoming [''user-agent'' \<mapsto> ''curl/8.0'', ''authorization'' \<mapsto> ''Bearer abc''] ''/api/users'')
     ''x-api-version'' = None
   \<and> headers (incoming [''user-agent'' \<mapsto> ''curl/8.0'', ''authorization'' \<mapsto> ''Bearer abc''] ''/api/users'')
     ''app-version'' = None
   \<and> \<not> legacy_agent (toLowerCase ''curl/8.0'')
   \<and> clientFormat (fst (formatDetector
        (incoming [''user-agent'' \<mapsto> ''curl/8.0'', ''authorization'' \<mapsto> ''Bearer abc''] ''/api/users'')))
      = Some currentFormat
   \<and> currentFormat \<noteq> getLegacyFormat"
  by (simp add: incoming_def formatDetector_def detectFormat_def truthy_hdr_def hdr_str_def
      toLowerCase_def lower_char_def startsWith_def legacy_agent_def currentFormat_def
      getLegacyFormat_def)

text \<open>
  C8. With an explicit version header of value \<open>v2\<close> or \<open>2\<close> the request is classified as
  v2 (wrapInData and includeSuccess set), not as legacy, whatever the user-agent says.
\<close>

theorem explicit_version_wins:
  assumes "headers req ''x-api-version'' = Some v" and "v = ''v2'' \<or> v = ''2''"
  shows "clientFormat (fst (formatDetector req)) = Some v2Format
         \<and> ftype v2Format = V2 \<and> wrapInData v2Format \<and> includeSuccess v2Format
         \<and> v2Format \<noteq> getLegacyFormat"
  using assms
  by (auto simp add: formatDetector_def detectFormat_def truthy_hdr_def hdr_str_def
      getFormatByVersion_def v2Format_def getLegacyFormat_def)

text \<open>The same at a request whose user-agent names a legacy client.\<close>

theorem explicit_version_wins_witness:
  "legacy_agent (toLowerCase ''48Hauling-Android/1.2'')
   \<and> clientFormat (fst (formatDetector
        (incoming [''x-api-version'' \<mapsto> ''v2'', ''user-agent'' \<mapsto> ''48Hauling-Android/1.2'']
           ''/api/hauling/jobs''))) = Some v2Format"
  using explicit_version_wins
    [of "incoming [''x-api-version'' \<mapsto> ''v2'', ''user-agent'' \<mapsto> ''48Hauling-Android/1.2'']
           ''/api/hauling/jobs''" "''v2''"]
  by (simp add: incoming_def legacy_agent_def toLowerCase_def lower_char_def startsWith_def)

text \<open>
  C9. The detector always calls \<open>next()\<close> with exactly one descriptor attached, one of the
  three the code builds; when no rule applies (no truthy version header, no truthy
  application-version header, no user-agent naming a legacy client, no truthy
  Authorization header) it is the current descriptor, without wrapping and without
  success flag.
\<close>

theorem formatDetector_always_attaches:
  "snd (formatDetector req) = Next
   \<and> clientFormat (fst (formatDetector req)) = Some (detectFormat (headers req))
   \<and> detectFormat (headers req) \<in> {getLegacyFormat, v2Format, currentFormat}
   \<and> (\<not> truthy_hdr (headers req ''x-api-version'')
       \<and> \<not> truthy_hdr (headers req ''app-version'')
       \<and> \<not> (truthy_hdr (headers req ''user-agent'')
              \<and> legacy_agent (toLowerCase (hdr_str (headers req ''user-agent''))))
       \<and> \<not> truthy_hdr (headers req ''authorization'')
       \<longrightarrow> detectFormat (headers req) = currentFormat)
   \<and> ftype currentFormat = Current
   \<and> \<not> wrapInData currentFormat \<and> \<not> includeSuccess currentFormat"
  by (simp add: formatDetector_def detectFormat_def getFormatByVersion_def legacy_agent_def
      Let_def currentFormat_def)

theorem formatDetector_always_attaches_witness:
  "clientFormat (fst (formatDetector (incoming [''user-agent'' \<mapsto> ''Mozilla/5.0''] ''/health'')))
     = Some currentFormat
   \<and> detectFormat [''user-agent'' \<mapsto> ''Mozilla/5.0''] = currentFormat"
  using formatDetector_always_attaches [of "incoming [''user-agent'' \<mapsto> ''Mozilla/5.0''] ''/health''"]
  by (simp add: incoming_def truthy_hdr_def hdr_str_def legacy_agent_def toLowerCase_def
      lower_char_def startsWith_def)

section \<open>Response transformation\<close>

lemmas transform_defs =
  transformResponse_def ensureFormat_def transformToLegacy_def transformToV2_def wrapped_def

text \<open>
  C3, as stated, fails on two bodies that contain an \<open>error\<close> field: one whose \<open>success\<close>
  is truthy, which \<open>ensureFormat\<close> returns as it is, and one whose \<open>error\<close> is the empty
  string, which is not taken for an error and is wrapped for a legacy client.
\<close>

theorem error_field_not_always_normalized:
  "has_field (JObj [(''success'', JBool True), (''error'', JStr ''partial'')]) ''error''
   \<and> transformResponse (JObj [(''success'', JBool True), (''error'', JStr ''partial'')])
        getLegacyFormat ''/api/users''
      \<noteq> Inr (error_shape (JObj [(''success'', JBool True), (''error'', JStr ''partial'')]))
   \<and> has_field (JObj [(''error'', JStr [])]) ''error''
   \<and> transformResponse (JObj [(''error'', JStr [])]) getLegacyFormat ''/api/users''
      \<noteq> Inr (error_shape (JObj [(''error'', JStr [])]))"
  by (simp add: transform_defs error_shape_def getLegacyFormat_def)

text \<open>
  C3, amended. For every body whose \<open>error\<close> is truthy and whose \<open>success\<close> is absent or
  falsy, every descriptor and every path, the transformer outputs exactly
  \<open>{ success: false, error, message }\<close> with the body's error and message and no envelope;
  a body whose \<open>error\<close> and \<open>success\<close> are both truthy is passed through unchanged.
\<close>

theorem error_normalization:
  assumes "truthy (field data ''error'')"
  shows "(\<not> truthy (field data ''success'')
            \<longrightarrow> transformResponse data format p = Inr (error_shape data))
         \<and> (truthy (field data ''success'') \<longrightarrow> transformResponse data format p = Inr data)"
  using assms by (cases data) (auto simp: transform_defs error_shape_def)

theorem error_normalization_witness:
  "truthy (field (JObj [(''error'', JStr ''not found'')]) ''error'')
   \<and> transformResponse (JObj [(''error'', JStr ''not found'')]) v2Format ''/api/users/7''
      = Inr (JObj [(''success'', JBool False), (''error'', JStr ''not found''),
                   (''message'', JUndefined)])"
  using error_normalization [of "JObj [(''error'', JStr ''not found'')]" v2Format "''/api/users/7''"]
  by (simp add: error_shape_def)

text \<open>
  C10. Whenever the normalization branch of \<open>ensureFormat\<close> is taken (the body's \<open>error\<close>
  is truthy and its \<open>success\<close> is not), the output object has exactly the three keys
  \<open>success\<close>, \<open>error\<close> and \<open>message\<close>, and this object is what the transformer sends: no
  other field of the body is in it.
\<close>

theorem error_shape_has_three_keys:
  assumes "truthy (field data ''error'')" and "\<not> truthy (field data ''success'')"
  shows "case ensureFormat data format of
           Inl e \<Rightarrow> False
         | Inr out \<Rightarrow>
             keys out = [''success'', ''error'', ''message'']
             \<and> (\<forall>k. has_field out k \<longleftrightarrow> k \<in> {''success'', ''error'', ''message''})
             \<and> transformResponse data format p = Inr out"
  using assms by (cases data) (auto simp: ensureFormat_def transformResponse_def)

theorem error_shape_has_three_keys_witness:
  "\<not> has_field (JObj [(''success'', JBool False), (''error'', JStr ''denied''),
                       (''message'', JUndefined)]) ''code''
   \<and> transformResponse
        (JObj [(''error'', JStr ''denied''), (''code'', JNum 42), (''details'', JArr [])])
        currentFormat ''/api/users''
      = Inr (JObj [(''success'', JBool False), (''error'', JStr ''denied''),
                   (''message'', JUndefined)])"
  using error_shape_has_three_keys
    [of "JObj [(''error'', JStr ''denied''), (''code'', JNum 42), (''details'', JArr [])]"
        currentFormat "''/api/users''"]
  by (simp add: ensureFormat_def)




text \<open>
  C5 at a body that already has the shape \<open>{ success, data }\<close>, under the v2 descriptor.
  The v2 branch tests \<open>data.data\<close> for truthiness where the legacy branch tests
  \<open>success\<close> and \<open>data\<close> against \<open>undefined\<close>: the shaped body
  \<open>{ success: true, data: 0 }\<close> is returned as it is for a legacy client and is wrapped
  once more for a v2 client. That body is also what the first pass makes of the body \<open>0\<close>,
  so transforming \<open>0\<close> twice does not give what transforming it once gives.
\<close>

theorem v2_rewraps_shaped_body:
  "transformResponse (JObj [(''success'', JBool True), (''data'', JNum 0)]) getLegacyFormat
     ''/api/metrics/count''
     = Inr (JObj [(''success'', JBool True), (''data'', JNum 0)])
   \<and> transformResponse (JObj [(''success'', JBool True), (''data'', JNum 0)]) v2Format
       ''/api/metrics/count''
     = Inr (JObj [(''success'', JBool True),
                  (''data'', JObj [(''success'', JBool True), (''data'', JNum 0)])])
   \<and> transformResponse (JNum 0) v2Format ''/api/metrics/count''
     = Inr (JObj [(''success'', JBool True), (''data'', JNum 0)])
   \<and> transformTwice (JNum 0) v2Format ''/api/metrics/count''
     = Inr (JObj [(''success'', JBool True),
                  (''data'', JObj [(''success'', JBool True), (''data'', JNum 0)])])
   \<and> transformTwice (JNum 0) v2Format ''/api/metrics/count''
     \<noteq> transformResponse (JNum 0) v2Format ''/api/metrics/count''"
  by (simp add: transformTwice_def transform_defs v2Format_def getLegacyFormat_def)

section \<open>Authentication and revocation\<close>

text \<open>
  C6. A request whose bearer token has a live entry in the revocation store is answered
  with 401 and the token-revoked error, whatever the verifier would say about the token;
  the request is returned as it came, with no identity attached to it.
\<close>

theorem revoked_token_rejected:
  assumes "headers req ''authorization'' = Some (''Bearer '' @ token)"
    and "up r" and "entries r (''blacklist:'' @ token) = Some e" and "live e now_ms"
  shows "authMiddleware verify r now_ms req
           = (req, Respond 401 (JObj [(''error'', JStr ''Token has been revoked'')]))
         \<and> user (fst (authMiddleware verify r now_ms req)) = user req"
  using assms
  by (simp add: authMiddleware_def truthy_hdr_def hdr_str_def startsWith_def
      isTokenBlacklisted_def redis_get_def err_body_def)

text \<open>
  The same at a token revoked at time 1000 ms for 60 s and presented at 5000 ms, with a
  verifier that would accept it.
\<close>

theorem revoked_token_rejected_witness:
  "live \<lparr>rvalue = ''true'', ttl = 60, stored_at = 1000\<rparr> 5000
   \<and> authMiddleware (\<lambda>t. Some \<lparr>userId = ''1'', email = ''a@b.c'', role = ''ADMIN''\<rparr>)
        \<lparr>up = True, entries = [''blacklist:abc'' \<mapsto> \<lparr>rvalue = ''true'', ttl = 60, stored_at = 1000\<rparr>]\<rparr>
        5000 (incoming [''authorization'' \<mapsto> ''Bearer abc''] ''/api/users'')
     = (incoming [''authorization'' \<mapsto> ''Bearer abc''] ''/api/users'',
        Respond 401 (JObj [(''error'', JStr ''Token has been revoked'')]))
   \<and> user (incoming [''authorization'' \<mapsto> ''Bearer abc''] ''/api/users'') = None"
  using revoked_token_rejected
    [of "incoming [''authorization'' \<mapsto> ''Bearer abc''] ''/api/users''" "''abc''"
        "\<lparr>up = True, entries = [''blacklist:abc'' \<mapsto> \<lparr>rvalue = ''true'', ttl = 60, stored_at = 1000\<rparr>]\<rparr>"
        "\<lparr>rvalue = ''true'', ttl = 60, stored_at = 1000\<rparr>" 5000
        "\<lambda>t. Some \<lparr>userId = ''1'', email = ''a@b.c'', role = ''ADMIN''\<rparr>"]
  by (simp add: incoming_def live_def)

text \<open>
  C7. For a token with an embedded expiry: if the expiry minus the current time in
  seconds is positive, revoking the token stores one record under the token's key whose
  TTL is that remaining lifetime, and the rest of the store is untouched; if it is zero
  or negative, the store is left unchanged.
\<close>

theorem blacklistToken_ttl:
  assumes "decode token = Some d" and "exp d = Some e"
  shows "(0 < e - int (now_ms div 1000) \<and> up r \<longrightarrow>
            blacklistToken decode r now_ms token =
              Inr (r\<lparr>entries := (entries r)(''blacklist:'' @ token \<mapsto>
                     \<lparr>rvalue = ''true'', ttl = e - int (now_ms div 1000),
                      stored_at = now_ms\<rparr>)\<rparr>))
         \<and> (e - int (now_ms div 1000) \<le> 0 \<longrightarrow> blacklistToken decode r now_ms token = Inr r)"
  using assms by (auto simp add: blacklistToken_def redis_setEx_def Let_def)

text \<open>
  The same at a token that expires at second 100: revoked at 40.5 s it is stored for 60 s,
  revoked at 100 s it is not stored.
\<close>

theorem blacklistToken_ttl_witness:
  "blacklistToken (\<lambda>t. Some \<lparr>exp = Some 100\<rparr>) \<lparr>up = True, entries = Map.empty\<rparr> 40500 ''abc''
     = Inr \<lparr>up = True,
            entries = [''blacklist:abc'' \<mapsto> \<lparr>rvalue = ''true'', ttl = 60, stored_at = 40500\<rparr>]\<rparr>
   \<and> blacklistToken (\<lambda>t. Some \<lparr>exp = Some 100\<rparr>) \<lparr>up = True, entries = Map.empty\<rparr> 100000 ''abc''
     = Inr \<lparr>up = True, entries = Map.empty\<rparr>"
  using blacklistToken_ttl
      [of "\<lambda>t. Some \<lparr>exp = Some 100\<rparr>" "''abc''" "\<lparr>exp = Some 100\<rparr>" 100 40500
          "\<lparr>up = True, entries = Map.empty\<rparr>"]
    blacklistToken_ttl
      [of "\<lambda>t. Some \<lparr>exp = Some 100\<rparr>" "''abc''" "\<lparr>exp = Some 100\<rparr>" 100 100000
          "\<lparr>up = True, entries = Map.empty\<rparr>"]
  by simp

section \<open>Rate limiting\<close>

lemmas limiter_defs =
  handle_def mounts_def mount_matches_def toLowerCase_def lower_char_def startsWith_def
  rateLimit_def hits_after_def config_of_def store_of_def set_store_def
  realtimeLimiter_def generalLimiter_def rejection_def Let_def

text \<open>
  A heartbeat request inside the window of both counters passes the realtime limiter,
  goes on to the line of \<open>/api/hauling\<close> and is counted by the general limiter as well.
\<close>

lemma handle_heartbeat:
  assumes "realtimeStore ls a = Some (r, rr)" and "generalStore ls a = Some (g, gr)"
    and "t < rr" and "t < gr" and "r < 15000"
  shows "handle ls (a, ''/api/hauling/heartbeat'', t) =
           (ls\<lparr>realtimeStore := (realtimeStore ls)(a \<mapsto> (r + 1, rr)),
               generalStore := (generalStore ls)(a \<mapsto> (g + 1, gr))\<rparr>,
            if g < 3000 then Reached ''/api/hauling'' else Limited (rejection generalLimiter))"
  using assms by (simp add: limiter_defs)

lemma handle_first_heartbeat:
  "handle no_traffic (a, ''/api/hauling/heartbeat'', t) =
     (\<lparr>authStore = Map.empty, realtimeStore = [a \<mapsto> (1, t + 900000)],
       generalStore = [a \<mapsto> (1, t + 900000)]\<rparr>, Reached ''/api/hauling'')"
  by (simp add: limiter_defs no_traffic_def)

lemma snd_serve_Cons:
  "snd (serve ls (rq # rqs)) = snd (handle ls rq) # snd (serve (fst (handle ls rq)) rqs)"
  by (simp split: prod.splits)

lemma serve_heartbeats:
  assumes "realtimeStore ls a = Some (r, rr)" and "generalStore ls a = Some (g, gr)"
    and "\<forall>t\<in>set ts. t < rr \<and> t < gr" and "r + length ts \<le> 15000"
  shows "snd (serve ls (heartbeats a ts)) =
           replicate (min (length ts) (3000 - g)) (Reached ''/api/hauling'')
           @ replicate (length ts - (3000 - g)) (Limited (rejection generalLimiter))"
  using assms
proof (induction ts arbitrary: ls r g)
  case Nil
  then show ?case by (simp add: heartbeats_def)
next
  case (Cons t ts)
  define ls' where "ls' = ls\<lparr>realtimeStore := (realtimeStore ls)(a \<mapsto> (r + 1, rr)),
               generalStore := (generalStore ls)(a \<mapsto> (g + 1, gr))\<rparr>"
  define m where "m = min (length ts) (3000 - (g + 1))"
  define k where "k = length ts - (3000 - (g + 1))"
  define R where "R = Reached ''/api/hauling''"
  define L where "L = Limited (rejection generalLimiter)"
  have step: "handle ls (a, ''/api/hauling/heartbeat'', t) = (ls', if g < 3000 then R else L)"
    unfolding ls'_def R_def L_def using Cons.prems by (intro handle_heartbeat) auto
  have "snd (serve ls' (heartbeats a ts)) =
           replicate (min (length ts) (3000 - (g + 1))) (Reached ''/api/hauling'')
           @ replicate (length ts - (3000 - (g + 1))) (Limited (rejection generalLimiter))"
    unfolding ls'_def using Cons.prems by (intro Cons.IH[where r = "r + 1"]) auto
  then have rest: "snd (serve ls' (heartbeats a ts)) = replicate m R @ replicate k L"
    by (simp only: m_def k_def R_def L_def)
  have unfold: "snd (serve ls (heartbeats a (t # ts))) =
      (if g < 3000 then R else L) # (replicate m R @ replicate k L)"
    using step rest by (simp only: heartbeats_def list.map snd_serve_Cons fst_conv snd_conv)
  show ?case
  proof (cases "g < 3000")
    case True
    then have "min (length (t # ts)) (3000 - g) = Suc m"
      and "length (t # ts) - (3000 - g) = k"
      by (auto simp: m_def k_def)
    then show ?thesis using unfold True
      by (simp only: R_def[symmetric] L_def[symmetric] replicate_Suc append_Cons if_True)
  next
    case False
    then have "min (length (t # ts)) (3000 - g) = 0" and "m = 0"
      and "length (t # ts) - (3000 - g) = Suc k"
      by (auto simp: m_def k_def)
    then show ?thesis using unfold False
      by (simp only: R_def[symmetric] L_def[symmetric] replicate_Suc replicate_0 append_Nil
          if_False)
  qed
qed

lemma heartbeats_from_start:
  assumes "\<forall>t\<in>set ts. t < t0 + 900000" and "length ts < 15000"
  shows "snd (serve no_traffic (heartbeats a (t0 # ts))) =
           Reached ''/api/hauling'' #
           (replicate (min (length ts) 2999) (Reached ''/api/hauling'')
            @ replicate (length ts - 2999) (Limited (rejection generalLimiter)))"
proof -
  define ls where "ls = \<lparr>authStore = Map.empty, realtimeStore = [a \<mapsto> (1, t0 + 900000)],
       generalStore = [a \<mapsto> (1::nat, t0 + 900000)]\<rparr>"
  have first: "handle no_traffic (a, ''/api/hauling/heartbeat'', t0) = (ls, Reached ''/api/hauling'')"
    unfolding ls_def by (rule handle_first_heartbeat)
  have "snd (serve ls (heartbeats a ts)) =
           replicate (min (length ts) (3000 - 1)) (Reached ''/api/hauling'')
           @ replicate (length ts - (3000 - 1)) (Limited (rejection generalLimiter))"
    using assms
    by (intro serve_heartbeats[where r = 1 and rr = "t0 + 900000" and gr = "t0 + 900000"])
       (auto simp: ls_def)
  moreover have "(3000::nat) - 1 = 2999" by simp
  ultimately have rest: "snd (serve ls (heartbeats a ts)) =
           replicate (min (length ts) 2999) (Reached ''/api/hauling'')
           @ replicate (length ts - 2999) (Limited (rejection generalLimiter))"
    by (simp only:)
  show ?thesis
    using first rest by (simp only: heartbeats_def list.map snd_serve_Cons fst_conv snd_conv)
qed

text \<open>
  C2 on the realtime class. One address sends 3001 heartbeat requests, one every 100 ms,
  to a server without earlier traffic. All of them are inside one 15-minute window and
  far below the realtime maximum of 15000, yet the first 3000 reach the router and the
  3001st is answered 429 by the general limiter, with the general message.
\<close>

theorem heartbeat_stopped_by_general_quota:
  "snd (serve no_traffic (heartbeats ''203.0.113.7'' (map (\<lambda>i. i * 100) [0..<3001])))
     = replicate 3000 (Reached ''/api/hauling'')
       @ [Limited (Respond 429 (JObj [(''success'', JBool False),
            (''error'', JStr ''Too many requests, please try again later.'')]))]"
proof -
  define ts :: "nat list" where "ts = map (\<lambda>i. i * 100) [Suc 0..<3001]"
  define R where "R = Reached ''/api/hauling''"
  define L where "L = Limited (rejection generalLimiter)"
  have len: "length ts = 3000" by (simp add: ts_def)
  have inwin: "\<forall>t\<in>set ts. t < 0 + 900000" by (auto simp: ts_def)
  have "[0..<3001] = 0 # [Suc 0..<3001]" by (rule upt_conv_Cons) simp
  then have times: "map (\<lambda>i. i * 100) [0..<3001] = 0 # ts"
    by (simp only: ts_def list.map mult_zero_left)
  have a1: "min (3000::nat) 2999 = 2999" and a2: "(3000::nat) - 2999 = Suc 0"
    and a3: "(3000::nat) = Suc 2999"
    by simp_all
  have "snd (serve no_traffic (heartbeats ''203.0.113.7'' (0 # ts))) =
      R # (replicate (min (length ts) 2999) R @ replicate (length ts - 2999) L)"
    unfolding R_def L_def using inwin len by (intro heartbeats_from_start) auto
  then have "snd (serve no_traffic (heartbeats ''203.0.113.7'' (0 # ts))) =
      R # (replicate 2999 R @ replicate (Suc 0) L)"
    by (simp only: len a1 a2)
  also have "\<dots> = replicate (Suc 2999) R @ [L]"
    by (simp only: replicate_Suc replicate_0 append_Cons)
  finally have "snd (serve no_traffic (heartbeats ''203.0.113.7'' (map (\<lambda>i. i * 100) [0..<3001])))
     = replicate 3000 (Reached ''/api/hauling'') @ [Limited (rejection generalLimiter)]"
    by (simp only: times a3 R_def L_def)
  moreover have "rejection generalLimiter = Respond 429 (JObj [(''success'', JBool False),
            (''error'', JStr ''Too many requests, please try again later.'')])"
    by (simp add: rejection_def generalLimiter_def)
  ultimately show ?thesis by (simp only:)
qed

end
